theory Spec2Isabelle
  imports Main
begin

section \<open>The colour-constant generator \<open>assets/scripts/colors.py\<close>\<close>

text \<open>
  The script loads \<open>colors.json\<close>, walks the two-level table family by family and
  brightness by brightness, converts every OKLCH entry to linear sRGB with the
  \<open>coloraide\<close> library, prints one Rust constant per entry and, after the loops, one
  line that lists every generated name.

  The embedding follows the script statement by statement. Python values that
  \<open>json.load\<close> can return are a datatype, every exception is a value of \<open>error\<close>, the
  accumulator \<open>color_names\<close> and the standard output are a record that is passed along,
  and the two \<open>for\<close> loops are recursive functions over the keys they iterate.

  Text is modelled by \<open>string\<close>; the functions on text (\<open>upper\<close>, \<open>repr\<close>) are exact
  on ASCII text and leave every byte above 127 as it is. Floating-point numbers are
  an abstract type \<open>'f\<close>: the float operations of Python and the conversion of
  \<open>coloraide\<close> are parameters of the model, collected in the record \<open>lib\<close>.
\<close>

subsection \<open>Values and exceptions\<close>

datatype 'f json =
    JNull
  | JBool bool
  | JInt int
  | JFloat 'f
  | JStr string
  | JArr "'f json list"
  | JObj "(string \<times> 'f json) list"

datatype error =
    FileNotFoundError
  | JSONDecodeError
  | AttributeError
  | TypeError
  | KeyError
  | IndexError
  | OverflowError
  | ValueError

text \<open>
  What the script takes from outside its own text: true division by 100 on an
  \<open>int\<close> (which raises \<open>OverflowError\<close> when the quotient is too large for a float,
  \<open>None\<close> here) and on a float, the text of a float in an f-string, and
  \<open>Color("oklch", [l, c, h]).convert("srgb-linear").fit("srgb-linear")\<close> read at
  the indices 0, 1 and 2, which either raises or gives three floats.
\<close>

record 'f lib =
  int_div100 :: "int \<Rightarrow> 'f option"
  float_div100 :: "'f \<Rightarrow> 'f"
  float_repr :: "'f \<Rightarrow> string"
  color_fit :: "'f \<Rightarrow> 'f json \<Rightarrow> 'f json \<Rightarrow> error + 'f \<times> 'f \<times> 'f"

subsection \<open>Python built-ins the script uses\<close>

text \<open>\<open>str\<close> of a non-negative and of any integer: decimal digits, no padding.\<close>

definition digit_char :: "nat \<Rightarrow> char" where
  "digit_char d = char_of (48 + d)"

function str_nat :: "nat \<Rightarrow> string" where
  "str_nat n = (if n < 10 then [digit_char n] else str_nat (n div 10) @ [digit_char (n mod 10)])"
  by pat_completeness auto
termination
  by (relation "measure (\<lambda>n. n)") auto

declare str_nat.simps [simp del]

definition str_int :: "int \<Rightarrow> string" where
  "str_int i = (if i < 0 then CHR ''-'' # str_nat (nat (- i)) else str_nat (nat i))"

text \<open>\<open>str.upper\<close>: the letters a to z become A to Z.\<close>

definition upper_char :: "char \<Rightarrow> char" where
  "upper_char c =
     (let n = (of_char c :: nat) in if 97 \<le> n \<and> n \<le> 122 then char_of (n - 32) else c)"

definition upper :: "string \<Rightarrow> string" where
  "upper s = map upper_char s"

text \<open>
  \<open>repr\<close> of a \<open>str\<close>: the quote is a single quote unless the text holds a single
  quote and no double quote; the quote in use and the backslash are escaped, tab,
  newline and carriage return get their letter, the other control characters
  \<open>\xhh\<close>.
\<close>

definition hex_digit :: "nat \<Rightarrow> char" where
  "hex_digit d = (if d < 10 then char_of (48 + d) else char_of (87 + d))"

definition repr_char :: "char \<Rightarrow> char \<Rightarrow> string" where
  "repr_char q c =
     (let n = (of_char c :: nat) in
      if c = q \<or> n = 92 then [CHR 0x5C, c]
      else if n = 9 then [CHR 0x5C, CHR ''t'']
      else if n = 10 then [CHR 0x5C, CHR ''n'']
      else if n = 13 then [CHR 0x5C, CHR ''r'']
      else if n < 32 \<or> n = 127 then [CHR 0x5C, CHR ''x'', hex_digit (n div 16), hex_digit (n mod 16)]
      else [c])"

definition repr_str :: "string \<Rightarrow> string" where
  "repr_str s =
     (let q = (if CHR 0x27 \<in> set s \<and> CHR 0x22 \<notin> set s then CHR 0x22 else CHR 0x27)
      in q # concat (map (repr_char q) s) @ [q])"

text \<open>\<open>", ".join(xs)\<close>.\<close>

fun join_comma :: "string list \<Rightarrow> string" where
  "join_comma [] = []"
| "join_comma [x] = x"
| "join_comma (x # y # ys) = x @ '', '' @ join_comma (y # ys)"

text \<open>\<open>str\<close> of a list of \<open>str\<close>, as the f-string of the last line formats \<open>color_names\<close>.\<close>

definition repr_list :: "string list \<Rightarrow> string" where
  "repr_list xs = ''['' @ join_comma (map repr_str xs) @ '']''"

text \<open>\<open>repr\<close> of a loaded value, and \<open>str\<close>, which differs on a \<open>str\<close> only.\<close>

fun py_repr :: "'f lib \<Rightarrow> 'f json \<Rightarrow> string" where
  "py_repr env JNull = ''None''"
| "py_repr env (JBool b) = (if b then ''True'' else ''False'')"
| "py_repr env (JInt i) = str_int i"
| "py_repr env (JFloat x) = float_repr env x"
| "py_repr env (JStr s) = repr_str s"
| "py_repr env (JArr xs) = ''['' @ join_comma (map (py_repr env) xs) @ '']''"
| "py_repr env (JObj kvs) =
     ''{'' @ join_comma (map (\<lambda>kv. repr_str (fst kv) @ '': '' @ py_repr env (snd kv)) kvs) @ ''}''"

fun py_str :: "'f lib \<Rightarrow> 'f json \<Rightarrow> string" where
  "py_str env (JStr s) = s"
| "py_str env v = py_repr env v"

text \<open>\<open>d.keys()\<close>: only a \<open>dict\<close> has the method.\<close>

fun keys :: "'f json \<Rightarrow> error + string list" where
  "keys (JObj kvs) = Inr (map fst kvs)"
| "keys _ = Inl AttributeError"

text \<open>
  \<open>for x in v\<close>: a \<open>dict\<close> gives its keys in insertion order, a \<open>list\<close> its elements,
  a \<open>str\<close> its characters; nothing else is iterable.
\<close>

fun iterate :: "'f json \<Rightarrow> error + 'f json list" where
  "iterate (JObj kvs) = Inr (map (\<lambda>kv. JStr (fst kv)) kvs)"
| "iterate (JArr xs) = Inr xs"
| "iterate (JStr s) = Inr (map (\<lambda>c. JStr [c]) s)"
| "iterate _ = Inl TypeError"

text \<open>
  Indexing a sequence of length \<open>n\<close> with an integer: \<open>0 .. n - 1\<close> count from the
  front, \<open>-n .. -1\<close> from the end, anything else is out of range.
\<close>

definition seq_index :: "'a list \<Rightarrow> int \<Rightarrow> error + 'a" where
  "seq_index xs i =
     (if 0 \<le> i \<and> i < int (length xs) then Inr (xs ! nat i)
      else if - int (length xs) \<le> i \<and> i < 0 then Inr (xs ! nat (int (length xs) + i))
      else Inl IndexError)"

text \<open>
  \<open>v[k]\<close>. The keys of a loaded \<open>dict\<close> are all \<open>str\<close>: another hashable key is
  missing, a \<open>list\<close> or \<open>dict\<close> key is unhashable. A \<open>list\<close> and a \<open>str\<close> take an
  \<open>int\<close> (a \<open>bool\<close> is one); the other values cannot be subscripted.
\<close>

fun getitem :: "'f json \<Rightarrow> 'f json \<Rightarrow> error + 'f json" where
  "getitem (JObj kvs) (JStr k) = (case map_of kvs k of None \<Rightarrow> Inl KeyError | Some v \<Rightarrow> Inr v)"
| "getitem (JObj kvs) (JArr _) = Inl TypeError"
| "getitem (JObj kvs) (JObj _) = Inl TypeError"
| "getitem (JObj kvs) _ = Inl KeyError"
| "getitem (JArr xs) (JInt i) = seq_index xs i"
| "getitem (JArr xs) (JBool b) = seq_index xs (if b then 1 else 0)"
| "getitem (JArr xs) _ = Inl TypeError"
| "getitem (JStr s) (JInt i) = map_sum id (\<lambda>c. JStr [c]) (seq_index s i)"
| "getitem (JStr s) (JBool b) = map_sum id (\<lambda>c. JStr [c]) (seq_index s (if b then 1 else 0))"
| "getitem (JStr s) _ = Inl TypeError"
| "getitem _ _ = Inl TypeError"

text \<open>\<open>v / 100\<close>: defined on \<open>int\<close>, \<open>bool\<close> and \<open>float\<close>.\<close>

fun truediv100 :: "'f lib \<Rightarrow> 'f json \<Rightarrow> error + 'f" where
  "truediv100 env (JInt i) = (case int_div100 env i of None \<Rightarrow> Inl OverflowError | Some x \<Rightarrow> Inr x)"
| "truediv100 env (JBool b) =
     (case int_div100 env (if b then 1 else 0) of None \<Rightarrow> Inl OverflowError | Some x \<Rightarrow> Inr x)"
| "truediv100 env (JFloat x) = Inr (float_div100 env x)"
| "truediv100 env _ = Inl TypeError"

subsection \<open>The script\<close>

text \<open>
  Line 13, \<open>oklch_normalized = [oklch[0] / 100, oklch[1], oklch[2]]\<close>, evaluated
  left to right.
\<close>

definition oklch_normalized :: "'f lib \<Rightarrow> 'f json \<Rightarrow> error + 'f \<times> 'f json \<times> 'f json" where
  "oklch_normalized env oklch =
     (case getitem oklch (JInt 0) of Inl e \<Rightarrow> Inl e | Inr a \<Rightarrow>
     (case truediv100 env a of Inl e \<Rightarrow> Inl e | Inr l \<Rightarrow>
     (case getitem oklch (JInt 1) of Inl e \<Rightarrow> Inl e | Inr c \<Rightarrow>
     (case getitem oklch (JInt 2) of Inl e \<Rightarrow> Inl e | Inr h \<Rightarrow> Inr (l, c, h)))))"

text \<open>Lines 13 to 18: from the entry to \<open>r, g, b\<close>.\<close>

definition convert :: "'f lib \<Rightarrow> 'f json \<Rightarrow> error + 'f \<times> 'f \<times> 'f" where
  "convert env oklch =
     (case oklch_normalized env oklch of Inl e \<Rightarrow> Inl e
      | Inr (l, c, h) \<Rightarrow> color_fit env l c h)"

text \<open>The text of line 20 and of line 22.\<close>

definition color_line :: "'f lib \<Rightarrow> string \<Rightarrow> 'f \<times> 'f \<times> 'f \<Rightarrow> string" where
  "color_line env name rgb =
     (case rgb of (r, g, b) \<Rightarrow>
        ''pub const '' @ name @ '': Self = Self::new('' @ float_repr env r @ '', ''
          @ float_repr env g @ '', '' @ float_repr env b @ '');'')"

definition all_line :: "string list \<Rightarrow> string" where
  "all_line names =
     ''pub const ALL: [Self; '' @ str_nat (length names) @ ''] = '' @ repr_list names @ '';''"

record state =
  color_names :: "string list"
  stdout :: "string list"

text \<open>
  Lines 10 to 20, the body of the inner loop. The name is appended before the entry
  is read, and the line is printed last: a body that raises has printed nothing.
\<close>

definition body :: "'f lib \<Rightarrow> 'f json \<Rightarrow> string \<Rightarrow> 'f json \<Rightarrow> state \<Rightarrow> state \<times> error option" where
  "body env data color_name brightness s =
     (let name = upper (color_name @ ''_'' @ py_str env brightness);
          s1 = s\<lparr>color_names := color_names s @ [''Self::'' @ name]\<rparr>
      in (case getitem data (JStr color_name) of Inl e \<Rightarrow> (s1, Some e) | Inr family \<Rightarrow>
         (case getitem family brightness of Inl e \<Rightarrow> (s1, Some e) | Inr oklch \<Rightarrow>
         (case convert env oklch of Inl e \<Rightarrow> (s1, Some e) | Inr rgb \<Rightarrow>
           (s1\<lparr>stdout := stdout s1 @ [color_line env name rgb]\<rparr>, None)))))"

text \<open>Line 9, \<open>for brightness in data[color_name]\<close>, over the values still to come.\<close>

fun brightness_loop ::
  "'f lib \<Rightarrow> 'f json \<Rightarrow> string \<Rightarrow> 'f json list \<Rightarrow> state \<Rightarrow> state \<times> error option" where
  "brightness_loop env data color_name [] s = (s, None)"
| "brightness_loop env data color_name (b # bs) s =
     (case body env data color_name b s of
        (s', Some e) \<Rightarrow> (s', Some e)
      | (s', None) \<Rightarrow> brightness_loop env data color_name bs s')"

text \<open>Line 8, \<open>for color_name in data.keys()\<close>, over the keys still to come.\<close>

fun family_loop ::
  "'f lib \<Rightarrow> 'f json \<Rightarrow> string list \<Rightarrow> state \<Rightarrow> state \<times> error option" where
  "family_loop env data [] s = (s, None)"
| "family_loop env data (color_name # rest) s =
     (case getitem data (JStr color_name) of Inl e \<Rightarrow> (s, Some e) | Inr family \<Rightarrow>
     (case iterate family of Inl e \<Rightarrow> (s, Some e) | Inr bs \<Rightarrow>
     (case brightness_loop env data color_name bs s of
        (s', Some e) \<Rightarrow> (s', Some e)
      | (s', None) \<Rightarrow> family_loop env data rest s')))"

text \<open>
  What \<open>open\<close> and \<open>json.load\<close> leave the script with: no file, a file that is not
  JSON, or the loaded value.
\<close>

datatype 'f source = Missing | Malformed | Loaded "'f json"

text \<open>
  The whole script: the lines printed, and the exception that ended the run if one
  did. The last line is printed only when the loops have finished.
\<close>

definition generate :: "'f lib \<Rightarrow> 'f source \<Rightarrow> string list \<times> error option" where
  "generate env src =
     (case src of
        Missing \<Rightarrow> ([], Some FileNotFoundError)
      | Malformed \<Rightarrow> ([], Some JSONDecodeError)
      | Loaded data \<Rightarrow>
          (case keys data of Inl e \<Rightarrow> ([], Some e) | Inr names \<Rightarrow>
          (case family_loop env data names \<lparr>color_names = [], stdout = []\<rparr> of
             (s, Some e) \<Rightarrow> (stdout s, Some e)
           | (s, None) \<Rightarrow> (stdout s @ [all_line (color_names s)], None))))"

subsection \<open>The vocabulary of the specification\<close>

text \<open>
  A ColorTable is a mapping from family names to mappings from brightness labels to
  entries: an object whose values are objects. The keys of a \<open>dict\<close> are distinct.
\<close>

fun members :: "'f json \<Rightarrow> (string \<times> 'f json) list" where
  "members (JObj kvs) = kvs"
| "members _ = []"

fun is_mapping :: "'f json \<Rightarrow> bool" where
  "is_mapping (JObj kvs) = distinct (map fst kvs)"
| "is_mapping _ = False"

definition color_table :: "'f json \<Rightarrow> bool" where
  "color_table d = (is_mapping d \<and> list_all (\<lambda>kv. is_mapping (snd kv)) (members d))"

text \<open>
  The (family, brightness) pairs of a table with their entries, family by family in
  the order of the file, and their number.
\<close>

definition family_entries :: "string \<times> 'f json \<Rightarrow> (string \<times> string \<times> 'f json) list" where
  "family_entries fam = map (\<lambda>kv. (fst fam, fst kv, snd kv)) (members (snd fam))"

definition entries :: "'f json \<Rightarrow> (string \<times> string \<times> 'f json) list" where
  "entries d = concat (map family_entries (members d))"


text \<open>The Identifier of a pair, \<open>{family}_{brightness}\<close> upper-cased.\<close>

definition ident :: "string \<times> string \<times> 'f json \<Rightarrow> string" where
  "ident e = upper (fst e @ ''_'' @ fst (snd e))"

text \<open>
  An entry is accepted when lines 13 to 18 run through on it; the line of an accepted
  entry is line 20 on its name and its converted triple.
\<close>

definition accepted :: "'f lib \<Rightarrow> string \<times> string \<times> 'f json \<Rightarrow> bool" where
  "accepted env e = (case convert env (snd (snd e)) of Inl _ \<Rightarrow> False | Inr _ \<Rightarrow> True)"

definition entry_line :: "'f lib \<Rightarrow> string \<times> string \<times> 'f json \<Rightarrow> string" where
  "entry_line env e = color_line env (ident e) (projr (convert env (snd (snd e))))"




subsection \<open>The two loops as one\<close>

text \<open>
  On a table the nested loops do what a single loop over its entries does: append
  the name, convert, print, and stop at the first entry that raises.
\<close>

fun emit_all :: "'f lib \<Rightarrow> (string \<times> string \<times> 'f json) list \<Rightarrow> state \<Rightarrow> state \<times> error option" where
  "emit_all env [] s = (s, None)"
| "emit_all env (e # es) s =
     (let s1 = s\<lparr>color_names := color_names s @ [''Self::'' @ ident e]\<rparr>
      in (case convert env (snd (snd e)) of
            Inl err \<Rightarrow> (s1, Some err)
          | Inr rgb \<Rightarrow> emit_all env es (s1\<lparr>stdout := stdout s1 @ [color_line env (ident e) rgb]\<rparr>)))"

subsection \<open>Runs as a relation\<close>

text \<open>
  The same script as a big-step relation between the input and the outcome of a run:
  one rule for each way a loop can go on or stop.
\<close>

inductive brightness_run ::
  "'f lib \<Rightarrow> 'f json \<Rightarrow> string \<Rightarrow> 'f json list \<Rightarrow> state \<Rightarrow> state \<times> error option \<Rightarrow> bool"
  for env :: "'f lib" and data :: "'f json" and color_name :: string where
  brightness_done: "brightness_run env data color_name [] s (s, None)"
| brightness_raise:
    "body env data color_name b s = (s', Some e) \<Longrightarrow>
     brightness_run env data color_name (b # bs) s (s', Some e)"
| brightness_next:
    "body env data color_name b s = (s', None) \<Longrightarrow>
     brightness_run env data color_name bs s' r \<Longrightarrow>
     brightness_run env data color_name (b # bs) s r"

inductive family_run ::
  "'f lib \<Rightarrow> 'f json \<Rightarrow> string list \<Rightarrow> state \<Rightarrow> state \<times> error option \<Rightarrow> bool"
  for env :: "'f lib" and data :: "'f json" where
  family_done: "family_run env data [] s (s, None)"
| family_missing:
    "getitem data (JStr color_name) = Inl e \<Longrightarrow>
     family_run env data (color_name # rest) s (s, Some e)"
| family_not_iterable:
    "getitem data (JStr color_name) = Inr family \<Longrightarrow> iterate family = Inl e \<Longrightarrow>
     family_run env data (color_name # rest) s (s, Some e)"
| family_raise:
    "getitem data (JStr color_name) = Inr family \<Longrightarrow> iterate family = Inr bs \<Longrightarrow>
     brightness_run env data color_name bs s (s', Some e) \<Longrightarrow>
     family_run env data (color_name # rest) s (s', Some e)"
| family_next:
    "getitem data (JStr color_name) = Inr family \<Longrightarrow> iterate family = Inr bs \<Longrightarrow>
     brightness_run env data color_name bs s (s', None) \<Longrightarrow>
     family_run env data rest s' r \<Longrightarrow>
     family_run env data (color_name # rest) s r"


subsection \<open>A stand-in library and sample tables\<close>

text \<open>
  For the examples a float is the text of the expression that computes it: dividing
  by 100 appends \<open>/100\<close>, the conversion takes a float and two numbers and names
  its three results after its arguments, and anything else is a \<open>TypeError\<close>.
\<close>

definition num_text :: "string json \<Rightarrow> string option" where
  "num_text v = (case v of JInt i \<Rightarrow> Some (str_int i) | JFloat x \<Rightarrow> Some x | _ \<Rightarrow> None)"

definition sample_lib :: "string lib" where
  "sample_lib =
     \<lparr>int_div100 = (\<lambda>i. Some (str_int i @ ''/100'')),
      float_div100 = (\<lambda>x. x @ ''/100''),
      float_repr = (\<lambda>x. x),
      color_fit = (\<lambda>l c h.
        (case (num_text c, num_text h) of
           (Some a, Some b) \<Rightarrow>
             (let t = ''('' @ l @ '', '' @ a @ '', '' @ b @ '')'' in Inr (''R'' @ t, ''G'' @ t, ''B'' @ t))
         | _ \<Rightarrow> Inl TypeError))\<rparr>"

definition sample_table :: "string json" where
  "sample_table =
     JObj [(''red'', JObj [(''50'', JArr [JFloat ''97.1'', JFloat ''0.013'', JFloat ''17.38'']),
                           (''950'', JArr [JFloat ''25.8'', JFloat ''0.092'', JFloat ''26.042'']),
                           (''100'', JArr [JFloat ''93.6'', JFloat ''0.032'', JFloat ''17.717''])]),
           (''blue'', JObj [(''500'', JArr [JInt 62, JFloat ''0.214'', JInt 259])])]"

definition reordered_table :: "string json" where
  "reordered_table =
     JObj [(''blue'', JObj [(''500'', JArr [JInt 62, JFloat ''0.214'', JInt 259])]),
           (''red'', JObj [(''100'', JArr [JFloat ''93.6'', JFloat ''0.032'', JFloat ''17.717'']),
                           (''50'', JArr [JFloat ''97.1'', JFloat ''0.013'', JFloat ''17.38'']),
                           (''950'', JArr [JFloat ''25.8'', JFloat ''0.092'', JFloat ''26.042''])])]"


section \<open>Properties\<close>

subsection \<open>The loops on a table\<close>

lemma str_nat_small: "n < 10 \<Longrightarrow> str_nat n = [digit_char n]"
  by (simp add: str_nat.simps)

lemma body_entry:
  assumes "getitem data (JStr F) = Inr fam" and "getitem fam (JStr B) = Inr t"
  shows "body env data F (JStr B) s =
    (let s1 = s\<lparr>color_names := color_names s @ [''Self::'' @ ident (F, B, t)]\<rparr>
     in (case convert env t of
           Inl err \<Rightarrow> (s1, Some err)
         | Inr rgb \<Rightarrow> (s1\<lparr>stdout := stdout s1 @ [color_line env (ident (F, B, t)) rgb]\<rparr>, None)))"
  using assms by (simp add: body_def ident_def Let_def split: sum.splits)

lemma brightness_loop_entries:
  assumes "getitem data (JStr F) = Inr fam"
    and "\<forall>kv\<in>set bs. getitem fam (JStr (fst kv)) = Inr (snd kv)"
  shows "brightness_loop env data F (map (\<lambda>kv. JStr (fst kv)) bs) s =
         emit_all env (map (\<lambda>kv. (F, fst kv, snd kv)) bs) s"
  using assms(2)
proof (induction bs arbitrary: s)
  case Nil
  then show ?case by simp
next
  case (Cons kv bs)
  have g: "getitem fam (JStr (fst kv)) = Inr (snd kv)" using Cons.prems by simp
  have ih: "\<And>s. brightness_loop env data F (map (\<lambda>kv. JStr (fst kv)) bs) s =
         emit_all env (map (\<lambda>kv. (F, fst kv, snd kv)) bs) s"
    using Cons.IH Cons.prems by simp
  show ?case
    by (simp add: body_entry [OF assms(1) g] Let_def ih split: sum.splits)
qed

lemma emit_all_append:
  "emit_all env (xs @ ys) s =
     (case emit_all env xs s of (s', Some e) \<Rightarrow> (s', Some e) | (s', None) \<Rightarrow> emit_all env ys s')"
  by (induction xs arbitrary: s) (simp_all add: Let_def split: sum.splits)

lemma getitem_mapping:
  assumes "distinct (map fst kvs)" and "kv \<in> set kvs"
  shows "getitem (JObj kvs) (JStr (fst kv)) = Inr (snd kv)"
proof -
  have "map_of kvs (fst kv) = Some (snd kv)"
    using assms by (cases kv) simp
  then show ?thesis by simp
qed

lemma family_loop_entries:
  assumes "\<forall>kv\<in>set fs. getitem data (JStr (fst kv)) = Inr (snd kv) \<and> is_mapping (snd kv)"
  shows "family_loop env data (map fst fs) s = emit_all env (concat (map family_entries fs)) s"
  using assms
proof (induction fs arbitrary: s)
  case Nil
  then show ?case by simp
next
  case (Cons kv fs)
  have g: "getitem data (JStr (fst kv)) = Inr (snd kv)" and m: "is_mapping (snd kv)"
    using Cons.prems by simp_all
  from m obtain bs where bs: "snd kv = JObj bs" and d: "distinct (map fst bs)"
    by (cases "snd kv") simp_all
  have inner: "brightness_loop env data (fst kv) (map (\<lambda>kv. JStr (fst kv)) bs) s =
         emit_all env (family_entries kv) s"
    using brightness_loop_entries [OF g, of bs env s] getitem_mapping [OF d]
    by (simp add: family_entries_def bs)
  have ih: "\<And>s. family_loop env data (map fst fs) s = emit_all env (concat (map family_entries fs)) s"
    using Cons.IH Cons.prems by simp
  show ?case
    by (simp add: g bs inner ih emit_all_append split: prod.splits option.splits)
qed

lemma family_loop_table:
  assumes "color_table d"
  shows "family_loop env d (map fst (members d)) s = emit_all env (entries d) s"
proof -
  from assms obtain fs where fs: "d = JObj fs" and dist: "distinct (map fst fs)"
    and inner: "list_all (\<lambda>kv. is_mapping (snd kv)) fs"
    by (cases d) (simp_all add: color_table_def)
  have "\<forall>kv\<in>set fs. getitem d (JStr (fst kv)) = Inr (snd kv) \<and> is_mapping (snd kv)"
    using getitem_mapping [OF dist] inner by (simp add: fs list_all_iff)
  from family_loop_entries [OF this] show ?thesis by (simp add: entries_def fs)
qed

lemma emit_all_stdout:
  "stdout (fst (emit_all env es s)) = stdout s @ map (entry_line env) (takeWhile (accepted env) es)"
  by (induction es arbitrary: s) (simp_all add: Let_def accepted_def entry_line_def split: sum.splits)

lemma emit_all_error:
  "(snd (emit_all env es s) = None) = list_all (accepted env) es"
  by (induction es arbitrary: s) (simp_all add: Let_def accepted_def split: sum.splits)

lemma emit_all_names:
  "list_all (accepted env) es \<Longrightarrow>
     color_names (fst (emit_all env es s)) = color_names s @ map (\<lambda>e. ''Self::'' @ ident e) es"
  by (induction es arbitrary: s) (simp_all add: Let_def accepted_def split: sum.splits)

lemma generate_table:
  assumes "color_table d"
  shows "generate env (Loaded d) =
    (let r = emit_all env (entries d) \<lparr>color_names = [], stdout = []\<rparr>
     in (case snd r of Some e \<Rightarrow> (stdout (fst r), Some e)
         | None \<Rightarrow> (stdout (fst r) @ [all_line (color_names (fst r))], None)))"
proof -
  from assms obtain fs where fs: "d = JObj fs" by (cases d) (simp_all add: color_table_def)
  show ?thesis
    using family_loop_table [OF assms, of env "\<lparr>color_names = [], stdout = []\<rparr>"]
    by (simp add: generate_def fs Let_def split: prod.splits option.splits)
qed

lemma generate_table_lines:
  assumes "color_table d"
  shows "fst (generate env (Loaded d)) =
     map (entry_line env) (takeWhile (accepted env) (entries d)) @
     (if list_all (accepted env) (entries d)
      then [all_line (map (\<lambda>e. ''Self::'' @ ident e) (entries d))] else [])"
proof (cases "list_all (accepted env) (entries d)")
  case True
  then have "snd (emit_all env (entries d) \<lparr>color_names = [], stdout = []\<rparr>) = None"
    by (simp add: emit_all_error)
  then show ?thesis
    using True by (simp add: generate_table [OF assms] Let_def emit_all_stdout emit_all_names)
next
  case False
  then have "snd (emit_all env (entries d) \<lparr>color_names = [], stdout = []\<rparr>) \<noteq> None"
    by (simp add: emit_all_error)
  then show ?thesis
    using False by (auto simp add: generate_table [OF assms] Let_def emit_all_stdout)
qed

lemma generate_table_error:
  assumes "color_table d"
  shows "(snd (generate env (Loaded d)) = None) = list_all (accepted env) (entries d)"
  using emit_all_error [of env "entries d" "\<lparr>color_names = [], stdout = []\<rparr>"]
  by (auto simp add: generate_table [OF assms] Let_def split: option.splits)

subsection \<open>A table without entries\<close>

lemma family_loop_empty:
  assumes "\<forall>F\<in>set names. getitem data (JStr F) = Inr (JObj [])"
  shows "family_loop env data names s = (s, None)"
  using assms by (induction names arbitrary: s) simp_all

lemma getitem_all_empty:
  assumes "list_all (\<lambda>kv. snd kv = JObj []) fs" and "F \<in> set (map fst fs)"
  shows "getitem (JObj fs) (JStr F) = Inr (JObj [])"
proof -
  from assms(2) obtain v where "map_of fs F = Some v"
    by (metis map_of_eq_None_iff not_Some_eq set_map)
  moreover from this have "(F, v) \<in> set fs" by (rule map_of_SomeD)
  then have "v = JObj []" using assms(1) by (auto simp: list_all_iff)
  ultimately show ?thesis by simp
qed

lemma all_line_nil: "all_line [] = ''pub const ALL: [Self; 0] = [];''"
  by code_simp

subsection \<open>Runs that finish\<close>

lemma generate_success:
  assumes "color_table d" and "generate env (Loaded d) = (out, None)"
  shows "list_all (accepted env) (entries d)"
    and "out = map (entry_line env) (entries d) @ [all_line (map (\<lambda>e. ''Self::'' @ ident e) (entries d))]"
proof -
  have "snd (generate env (Loaded d)) = None" using assms(2) by simp
  then show ok: "list_all (accepted env) (entries d)"
    by (simp add: generate_table_error [OF assms(1)])
  then have tw: "takeWhile (accepted env) (entries d) = entries d"
    by (simp add: list_all_iff takeWhile_eq_all_conv)
  show "out = map (entry_line env) (entries d) @ [all_line (map (\<lambda>e. ''Self::'' @ ident e) (entries d))]"
    using generate_table_lines [OF assms(1), of env] ok assms(2) by (simp add: tw)
qed



subsection \<open>The sample run\<close>

lemma sample_run:
  "generate sample_lib (Loaded sample_table) =
     ([''pub const RED_50: Self = Self::new(R(97.1/100, 0.013, 17.38), G(97.1/100, 0.013, 17.38), B(97.1/100, 0.013, 17.38));'',
       ''pub const RED_950: Self = Self::new(R(25.8/100, 0.092, 26.042), G(25.8/100, 0.092, 26.042), B(25.8/100, 0.092, 26.042));'',
       ''pub const RED_100: Self = Self::new(R(93.6/100, 0.032, 17.717), G(93.6/100, 0.032, 17.717), B(93.6/100, 0.032, 17.717));'',
       ''pub const BLUE_500: Self = Self::new(R(62/100, 0.214, 259), G(62/100, 0.214, 259), B(62/100, 0.214, 259));'',
       ''pub const ALL: [Self; 4] = ['' @ [CHR 0x27] @ ''Self::RED_50'' @ [CHR 0x27] @ '', '' @
          [CHR 0x27] @ ''Self::RED_950'' @ [CHR 0x27] @ '', '' @ [CHR 0x27] @ ''Self::RED_100'' @ [CHR 0x27] @ '', '' @
          [CHR 0x27] @ ''Self::BLUE_500'' @ [CHR 0x27] @ ''];''], None)"
  by code_simp

lemma sample_is_table: "color_table sample_table"
  by code_simp

lemma reordered_is_table: "color_table reordered_table"
  by code_simp


lemma reordered_run:
  "generate sample_lib (Loaded reordered_table) =
     ([''pub const BLUE_500: Self = Self::new(R(62/100, 0.214, 259), G(62/100, 0.214, 259), B(62/100, 0.214, 259));'',
       ''pub const RED_100: Self = Self::new(R(93.6/100, 0.032, 17.717), G(93.6/100, 0.032, 17.717), B(93.6/100, 0.032, 17.717));'',
       ''pub const RED_50: Self = Self::new(R(97.1/100, 0.013, 17.38), G(97.1/100, 0.013, 17.38), B(97.1/100, 0.013, 17.38));'',
       ''pub const RED_950: Self = Self::new(R(25.8/100, 0.092, 26.042), G(25.8/100, 0.092, 26.042), B(25.8/100, 0.092, 26.042));'',
       ''pub const ALL: [Self; 4] = ['' @ [CHR 0x27] @ ''Self::BLUE_500'' @ [CHR 0x27] @ '', '' @
          [CHR 0x27] @ ''Self::RED_100'' @ [CHR 0x27] @ '', '' @ [CHR 0x27] @ ''Self::RED_50'' @ [CHR 0x27] @ '', '' @
          [CHR 0x27] @ ''Self::RED_950'' @ [CHR 0x27] @ ''];''], None)"
  by code_simp

subsection \<open>Entries the script accepts\<close>



subsection \<open>The relation and the function agree\<close>







section \<open>The claims\<close>





text \<open>
  C2. After the per-colour lines the script prints one line
  \<open>pub const ALL: [Self; N] = [...];\<close> that lists the generated names in the order
  of the per-colour lines. The claim has every name as an unquoted token
  \<open>Self::ID\<close>; the script formats the Python list itself, so every name stands
  between single quotes. For the file \<open>{"red": {"50": [50, 0.1, 20]}}\<close> the last
  line is \<open>pub const ALL: [Self; 1] = ['Self::RED_50'];\<close>, which is not the line the
  claim describes.
\<close>

theorem all_line_quotes_names:
  "generate sample_lib
     (Loaded (JObj [(''red'', JObj [(''50'', JArr [JInt 50, JFloat ''0.1'', JInt 20])])])) =
     ([''pub const RED_50: Self = Self::new(R(50/100, 0.1, 20), G(50/100, 0.1, 20), B(50/100, 0.1, 20));'',
       ''pub const ALL: [Self; 1] = ['' @ [CHR 0x27] @ ''Self::RED_50'' @ [CHR 0x27] @ ''];''], None) \<and>
   ''pub const ALL: [Self; 1] = ['' @ [CHR 0x27] @ ''Self::RED_50'' @ [CHR 0x27] @ ''];''
     \<noteq> ''pub const ALL: [Self; 1] = [Self::RED_50];''"
  by code_simp











text \<open>
  C5. The per-colour lines come in the order of the table's entries, family by
  family and brightness by brightness as the file declares them; nothing is sorted.
  When the entries of a second table are those of the first one rearranged (by a
  list \<open>p\<close> of positions, a permutation in particular), its run finishes as well
  and its per-colour lines are the lines of the first run rearranged by the same
  \<open>p\<close>.
\<close>

theorem declaration_order:
  assumes "color_table d" and "color_table d'"
    and "generate env (Loaded d) = (out, None)"
    and "entries d' = map (\<lambda>i. entries d ! i) p"
    and "list_all (\<lambda>i. i < length (entries d)) p"
  shows "butlast out = map (entry_line env) (entries d) \<and>
     (\<exists>out'. generate env (Loaded d') = (out', None) \<and>
        butlast out' = map (\<lambda>i. butlast out ! i) p)"
proof -
  note ok = generate_success [OF assms(1,3)]
  have lines: "butlast out = map (entry_line env) (entries d)" by (simp add: ok(2))
  have inr: "\<forall>i\<in>set p. i < length (entries d)" using assms(5) by (simp add: list_all_iff)
  have "\<forall>e\<in>set (entries d'). accepted env e"
  proof
    fix e assume "e \<in> set (entries d')"
    then obtain i where "i \<in> set p" and "e = entries d ! i" by (auto simp: assms(4))
    then have "e \<in> set (entries d)" using inr by simp
    then show "accepted env e" using ok(1) by (simp add: list_all_iff)
  qed
  then have ok': "list_all (accepted env) (entries d')" by (simp add: list_all_iff)
  then have "snd (generate env (Loaded d')) = None"
    by (simp add: generate_table_error [OF assms(2)])
  then have run': "generate env (Loaded d') = (fst (generate env (Loaded d')), None)"
    by (metis prod.collapse)
  note ok2 = generate_success [OF assms(2) run']
  have "butlast (fst (generate env (Loaded d'))) = map (entry_line env) (entries d')"
    using ok2(2) by simp
  also have "\<dots> = map (\<lambda>i. entry_line env (entries d ! i)) p" by (simp add: assms(4) comp_def)
  also have "\<dots> = map (\<lambda>i. butlast out ! i) p" using inr by (simp add: lines)
  finally show ?thesis using lines run' by blast
qed

theorem declaration_order_witness:
  "color_table sample_table \<and> color_table reordered_table \<and>
   entries reordered_table = map (\<lambda>i. entries sample_table ! i) [3, 2, 0, 1] \<and>
   list_all (\<lambda>i. i < length (entries sample_table)) [3, 2, 0, 1] \<and>
   butlast (fst (generate sample_lib (Loaded sample_table))) =
     [''pub const RED_50: Self = Self::new(R(97.1/100, 0.013, 17.38), G(97.1/100, 0.013, 17.38), B(97.1/100, 0.013, 17.38));'',
      ''pub const RED_950: Self = Self::new(R(25.8/100, 0.092, 26.042), G(25.8/100, 0.092, 26.042), B(25.8/100, 0.092, 26.042));'',
      ''pub const RED_100: Self = Self::new(R(93.6/100, 0.032, 17.717), G(93.6/100, 0.032, 17.717), B(93.6/100, 0.032, 17.717));'',
      ''pub const BLUE_500: Self = Self::new(R(62/100, 0.214, 259), G(62/100, 0.214, 259), B(62/100, 0.214, 259));''] \<and>
   butlast (fst (generate sample_lib (Loaded reordered_table))) =
     [''pub const BLUE_500: Self = Self::new(R(62/100, 0.214, 259), G(62/100, 0.214, 259), B(62/100, 0.214, 259));'',
      ''pub const RED_100: Self = Self::new(R(93.6/100, 0.032, 17.717), G(93.6/100, 0.032, 17.717), B(93.6/100, 0.032, 17.717));'',
      ''pub const RED_50: Self = Self::new(R(97.1/100, 0.013, 17.38), G(97.1/100, 0.013, 17.38), B(97.1/100, 0.013, 17.38));'',
      ''pub const RED_950: Self = Self::new(R(25.8/100, 0.092, 26.042), G(25.8/100, 0.092, 26.042), B(25.8/100, 0.092, 26.042));'']"
proof -
  have p: "entries reordered_table = map (\<lambda>i. entries sample_table ! i) [3, 2, 0, 1]" by code_simp
  have r: "list_all (\<lambda>i. i < length (entries sample_table)) [3, 2, 0, 1]" by code_simp
  from declaration_order [OF sample_is_table reordered_is_table sample_run p r]
  obtain out' where "generate sample_lib (Loaded reordered_table) = (out', None)"
    and "butlast out' = map (\<lambda>i. butlast (fst (generate sample_lib (Loaded sample_table))) ! i) [3, 2, 0, 1]"
    by (auto simp: sample_run)
  then have "butlast (fst (generate sample_lib (Loaded reordered_table))) =
     map (\<lambda>i. butlast (fst (generate sample_lib (Loaded sample_table))) ! i) [3, 2, 0, 1]"
    by simp
  then show ?thesis
    using sample_is_table reordered_is_table p r by (simp add: sample_run)
qed


text \<open>
  C6. For an entry \<open>[L, C, H]\<close> the triple handed to the conversion is
  \<open>[L / 100, C, H]\<close>: the lightness divided by 100 (a float or an integer, the
  latter raising when the quotient overflows), chroma and hue as they were loaded.
\<close>

theorem normalized_triple:
  "oklch_normalized env (JArr [JFloat x, C, H]) = Inr (float_div100 env x, C, H) \<and>
   oklch_normalized env (JArr [JInt i, C, H]) =
     (case int_div100 env i of None \<Rightarrow> Inl OverflowError | Some l \<Rightarrow> Inr (l, C, H)) \<and>
   convert env (JArr [JFloat x, C, H]) = color_fit env (float_div100 env x) C H \<and>
   convert env (JArr [JInt i, C, H]) =
     (case int_div100 env i of None \<Rightarrow> Inl OverflowError | Some l \<Rightarrow> color_fit env l C H)"
  by (simp add: oklch_normalized_def convert_def seq_index_def split: option.splits)






text \<open>
  C10. A table without any (family, brightness) pair, the empty object or families
  that are all empty objects, prints no per-colour line and exactly the one line
  \<open>pub const ALL: [Self; 0] = [];\<close>.
\<close>

theorem empty_table_output:
  assumes "list_all (\<lambda>kv. snd kv = JObj []) fs"
  shows "generate env (Loaded (JObj fs)) = ([''pub const ALL: [Self; 0] = [];''], None)"
proof -
  have "\<forall>F\<in>set (map fst fs). getitem (JObj fs) (JStr F) = Inr (JObj [])"
    using getitem_all_empty [OF assms] by blast
  then have "family_loop env (JObj fs) (map fst fs) \<lparr>color_names = [], stdout = []\<rparr>
      = (\<lparr>color_names = [], stdout = []\<rparr>, None)"
    by (rule family_loop_empty)
  then show ?thesis by (simp add: generate_def all_line_nil)
qed

theorem empty_table_output_witness:
  "list_all (\<lambda>kv. snd kv = JObj []) [(''red'', JObj []), (''blue'', JObj [])] \<and>
   generate sample_lib (Loaded (JObj [(''red'', JObj []), (''blue'', JObj [])]))
     = ([''pub const ALL: [Self; 0] = [];''], None) \<and>
   generate sample_lib (Loaded (JObj [])) = ([''pub const ALL: [Self; 0] = [];''], None)"
proof -
  have h: "list_all (\<lambda>kv. snd kv = (JObj [] :: string json)) [(''red'', JObj []), (''blue'', JObj [])]"
    by simp
  have h0: "list_all (\<lambda>kv. snd kv = (JObj [] :: string json)) []" by simp
  show ?thesis
    using h empty_table_output [OF h, of sample_lib] empty_table_output [OF h0, of sample_lib]
    by simp
qed

end
